theory Spec2Isabelle
  imports Main
begin

section \<open>JavaScript values\<close>

text \<open>
  The values that configuration documents, library options and option values carry are
  plain data: \<^verbatim>\<open>undefined\<close>, \<^verbatim>\<open>null\<close>, booleans, numbers,
  strings, arrays and objects. Numbers are the integers (a document's numerals), an
  object is the list of its own properties in enumeration order, and a string is its
  list of bytes.
\<close>

datatype jsval =
    JUndefined
  | JNull
  | JBool bool
  | JNum int
  | JStr string
  | JArr "jsval list"
  | JObj "(string \<times> jsval) list"

text \<open>What \<^verbatim>\<open>if (v)\<close>, \<^verbatim>\<open>!v\<close> and \<^verbatim>\<open>v || w\<close> test.\<close>

fun truthy :: "jsval \<Rightarrow> bool" where
  "truthy JUndefined = False"
| "truthy JNull = False"
| "truthy (JBool b) = b"
| "truthy (JNum n) = (n \<noteq> 0)"
| "truthy (JStr s) = (s \<noteq> [])"
| "truthy (JArr xs) = True"
| "truthy (JObj ps) = True"

definition js_or :: "jsval \<Rightarrow> jsval \<Rightarrow> jsval" where
  "js_or a b = (if truthy a then a else b)"

text \<open>The empty object \<^verbatim>\<open>{}\<close>.\<close>

definition empty_object :: jsval where
  "empty_object = JObj []"

subsection \<open>Strings\<close>

fun join :: "string \<Rightarrow> string list \<Rightarrow> string" where
  "join sep [] = []"
| "join sep [x] = x"
| "join sep (x # y # ys) = x @ sep @ join sep (y # ys)"

definition digit_char :: "nat \<Rightarrow> char" where
  "digit_char d = char_of (48 + d)"

fun decimal :: "nat \<Rightarrow> string" where
  "decimal n = (if n < 10 then [digit_char n] else decimal (n div 10) @ [digit_char (n mod 10)])"

declare decimal.simps [simp del]

definition number_to_string :: "int \<Rightarrow> string" where
  "number_to_string i = (if i < 0 then CHR ''-'' # decimal (nat (- i)) else decimal (nat i))"

subsection \<open>\<^verbatim>\<open>JSON.stringify\<close>\<close>

definition hex_char :: "nat \<Rightarrow> char" where
  "hex_char d = (if d < 10 then char_of (48 + d) else char_of (87 + d))"

definition json_escape_char :: "char \<Rightarrow> string" where
  "json_escape_char c =
     (if c = CHR 0x22 then [CHR 0x5C, CHR 0x22]
      else if c = CHR 0x5C then [CHR 0x5C, CHR 0x5C]
      else if c = CHR 0x08 then [CHR 0x5C, CHR ''b'']
      else if c = CHR 0x0C then [CHR 0x5C, CHR ''f'']
      else if c = CHR 0x0A then [CHR 0x5C, CHR ''n'']
      else if c = CHR 0x0D then [CHR 0x5C, CHR ''r'']
      else if c = CHR 0x09 then [CHR 0x5C, CHR ''t'']
      else if of_char c < (32 :: nat)
        then [CHR 0x5C, CHR ''u'', CHR ''0'', CHR ''0'',
              hex_char (of_char c div 16), hex_char (of_char c mod 16)]
      else [c])"

definition json_quote :: "string \<Rightarrow> string" where
  "json_quote s = [CHR 0x22] @ concat (map json_escape_char s) @ [CHR 0x22]"

text \<open>
  \<^verbatim>\<open>JSON.stringify(v)\<close>: \<open>None\<close> is the result \<^verbatim>\<open>undefined\<close>. An
  \<^verbatim>\<open>undefined\<close> array element is written \<^verbatim>\<open>null\<close>, a property whose
  value is \<^verbatim>\<open>undefined\<close> is left out, and the properties are written in
  enumeration order.
\<close>

fun JSON_stringify :: "jsval \<Rightarrow> string option"
  and stringify_elements :: "jsval list \<Rightarrow> string list"
  and stringify_properties :: "(string \<times> jsval) list \<Rightarrow> string list" where
  "JSON_stringify JUndefined = None"
| "JSON_stringify JNull = Some ''null''"
| "JSON_stringify (JBool b) = Some (if b then ''true'' else ''false'')"
| "JSON_stringify (JNum n) = Some (number_to_string n)"
| "JSON_stringify (JStr s) = Some (json_quote s)"
| "JSON_stringify (JArr xs) = Some (''['' @ join '','' (stringify_elements xs) @ '']'')"
| "JSON_stringify (JObj ps) = Some (''{'' @ join '','' (stringify_properties ps) @ ''}'')"
| "stringify_elements [] = []"
| "stringify_elements (x # xs) =
     (case JSON_stringify x of None \<Rightarrow> ''null'' | Some s \<Rightarrow> s) # stringify_elements xs"
| "stringify_properties [] = []"
| "stringify_properties (p # ps) =
     (case JSON_stringify (snd p) of
        None \<Rightarrow> stringify_properties ps
      | Some s \<Rightarrow> (json_quote (fst p) @ '':'' @ s) # stringify_properties ps)"

subsection \<open>Objects as property lists\<close>

text \<open>\<^verbatim>\<open>obj.hasOwnProperty(k)\<close>, the own property \<^verbatim>\<open>obj[k]\<close>, and
  \<^verbatim>\<open>obj[k] = v\<close>, which keeps the place of a property that exists and appends a new one.\<close>

definition has_own :: "(string \<times> 'v) list \<Rightarrow> string \<Rightarrow> bool" where
  "has_own obj k = (k \<in> set (map fst obj))"

definition get_own :: "(string \<times> 'v) list \<Rightarrow> string \<Rightarrow> 'v option" where
  "get_own obj k = map_of obj k"

fun set_prop :: "(string \<times> 'v) list \<Rightarrow> string \<Rightarrow> 'v \<Rightarrow> (string \<times> 'v) list" where
  "set_prop [] k v = [(k, v)]"
| "set_prop (p # ps) k v = (if fst p = k then (k, v) # ps else p # set_prop ps k v)"

text \<open>\<^verbatim>\<open>Object.assign(target, source)\<close> on own enumerable properties.\<close>

definition object_assign :: "(string \<times> 'v) list \<Rightarrow> (string \<times> 'v) list \<Rightarrow> (string \<times> 'v) list" where
  "object_assign target source = fold (\<lambda>p obj. set_prop obj (fst p) (snd p)) source target"

section \<open>Library records\<close>

text \<open>
  \<^verbatim>\<open>class LibraryInfo\<close>: the path, the options, the library that was loading when this
  one was loaded, and the name and version read from \<^verbatim>\<open>package.json\<close>. A field that
  is \<^verbatim>\<open>undefined\<close> is \<open>None\<close>.
\<close>

datatype LibraryInfo =
  LibraryInfo (lib_path: "string option") (lib_options: jsval)
    (parentLibrary: "LibraryInfo option")
    (lib_name: "string option") (lib_version: "string option")

text \<open>A template literal writes an \<^verbatim>\<open>undefined\<close> field as the word.\<close>

definition template_string :: "string option \<Rightarrow> string" where
  "template_string v = (case v of None \<Rightarrow> ''undefined'' | Some s \<Rightarrow> s)"

definition truthy_string :: "string option \<Rightarrow> bool" where
  "truthy_string v = (case v of None \<Rightarrow> False | Some s \<Rightarrow> s \<noteq> [])"

text \<open>The bytes (UTF-8) of the two box-drawing characters and the words that follow them.\<close>

definition loaded_by :: string where
  "loaded_by = [CHR 0xE2, CHR 0x94, CHR 0x94, CHR 0xE2, CHR 0x94, CHR 0x80] @ '' loaded by ''"

definition name_version :: "LibraryInfo \<Rightarrow> string" where
  "name_version lib =
     template_string (lib_name lib) @
     (if truthy_string (lib_version lib) then '' '' @ template_string (lib_version lib) else [])"

text \<open>
  The loop of \<^verbatim>\<open>getLibraryChainStackTrace\<close>, with its variables \<^verbatim>\<open>parent\<close>,
  \<^verbatim>\<open>indent\<close>, \<^verbatim>\<open>isFirstLine\<close> and \<^verbatim>\<open>stack\<close>.
\<close>

fun trace_loop :: "LibraryInfo option \<Rightarrow> nat \<Rightarrow> bool \<Rightarrow> string list \<Rightarrow> string list" where
  "trace_loop None indent isFirstLine stack = stack"
| "trace_loop (Some (LibraryInfo p opts parent n v)) indent isFirstLine stack =
     (let line = name_version (LibraryInfo p opts parent n v);
          prefix = replicate indent CHR '' '';
          line' = (if isFirstLine then line else loaded_by @ line)
      in trace_loop parent (indent + 2) False (stack @ [prefix @ line']))"

definition getLibraryChainStackTrace :: "LibraryInfo \<Rightarrow> string" where
  "getLibraryChainStackTrace lib = join [CHR 0x0A] (trace_loop (Some lib) 4 True [])"

text \<open>The record the loader starts from: \<^verbatim>\<open>new LibraryInfo()\<close>, named
  \<^verbatim>\<open>(root)\<close>, with the empty version.\<close>

definition root_library :: LibraryInfo where
  "root_library = LibraryInfo None JUndefined None (Some ''(root)'') (Some [])"

section \<open>Configuration documents\<close>

text \<open>
  A section of a \<^verbatim>\<open>.twistrc\<close> document is absent, an array of entries or a map.
  An array entry is a falsy value, a bare key, or an array \<^verbatim>\<open>[key, value]\<close> whose
  second element may be missing. The documents are typed as their authors write them:
  the keys of the sections are strings (and plugins), a declaration is an object, a
  library's options and an option's value are any value. A document that puts another
  kind of value in one of these places is not among the inputs.
\<close>

datatype ('k, 'v) entry = Falsy | Bare 'k | Tuple 'k "'v option"

datatype ('k, 'v) config_items = Absent | ArrayForm "('k, 'v) entry list" | ObjectForm "(string \<times> 'v) list"

text \<open>A declaration of a decorator or a component; \<^verbatim>\<open>inherits\<close> is a name or a
  module and export of its own.\<close>

datatype inherited = InheritsName string | InheritsDecl (inh_module: jsval) (inh_export: jsval)

record decl =
  decl_module :: jsval
  decl_export :: jsval
  decl_inherits :: "inherited option"

text \<open>A Babel plugin is named by a string or is a function or object, which has an identity.\<close>

datatype plugin = PluginName string | PluginRef nat

datatype document =
  Document (libraries: "(string, jsval) config_items")
    (decorators: "(string, decl) config_items")
    (components: "(string, decl) config_items")
    (babelPlugins: "(plugin, jsval) config_items")
    (doc_options: "(string, jsval) config_items")
    (doc_context: "(string \<times> document) list option")

definition empty_document :: document where
  "empty_document = Document Absent Absent Absent Absent Absent None"

definition empty_declaration :: decl where
  "empty_declaration = \<lparr>decl_module = JUndefined, decl_export = JUndefined, decl_inherits = None\<rparr>"

section \<open>The file system and the module resolver\<close>

datatype json_file = Malformed | Parsed document

datatype js_module = ExportsDocument document | ExportsFunction "jsval \<Rightarrow> document"

text \<open>
  What the loader reads: \<^verbatim>\<open>require.resolve(name + '/package.json')\<close> as the
  directory it finds, the name and version of the \<^verbatim>\<open>package.json\<close> in a directory
  (\<open>None\<close> when it cannot be read or parsed), the \<^verbatim>\<open>.twistrc\<close> and the
  \<^verbatim>\<open>.twistrc.js\<close> of a directory (\<open>None\<close> when the file does not exist), and
  the working directory.
\<close>

record env =
  resolve :: "string \<Rightarrow> string option"
  package_json :: "string \<Rightarrow> (string option \<times> string option) option"
  twistrc :: "string \<Rightarrow> json_file option"
  twistrc_js :: "string \<Rightarrow> js_module option"
  cwd :: string

section \<open>The configuration and its loader\<close>

text \<open>The errors thrown, each with its message; \<open>OutOfFuel\<close> stands for a merge that
  does not end within the bound given to it.\<close>

datatype error =
    ResolveError string
  | ManifestError string
  | VersionConflict string
  | InvalidConfig string
  | UnknownOption string
  | TypeError
  | OutOfFuel

text \<open>
  The state of one \<^verbatim>\<open>TwistConfiguration\<close> and of its \<^verbatim>\<open>LibraryLoader\<close>.
  \<open>mergeConfig_calls\<close> counts the calls of \<^verbatim>\<open>mergeConfig\<close> and \<open>warnings\<close>
  holds what \<^verbatim>\<open>console.warn\<close> printed.
\<close>

record twist =
  cfg_context :: string
  cfg_options :: "(string \<times> jsval) list"
  cfg_components :: "(string \<times> decl) list"
  cfg_decorators :: "(string \<times> decl) list"
  cfg_babelPlugins :: "(plugin \<times> jsval) list"
  libraryInfos :: "LibraryInfo list"
  currentLibrary :: "LibraryInfo option"
  mergeConfig_calls :: nat
  warnings :: "string list"

text \<open>A call returns the error it throws, if any, and the state it leaves.\<close>

type_synonym outcome = "error option \<times> twist"

subsection \<open>Options\<close>

definition DEFAULT_OPTIONS :: "(string \<times> jsval) list" where
  "DEFAULT_OPTIONS =
     [(''includeBabelRuntime'', JBool False),
      (''jsxSourceLines'', JBool False),
      (''polyfill'', JBool True),
      (''regenerator'', JBool False),
      (''targets'', JObj [(''node'', JStr ''current'')]),
      (''transformImports'', JBool True),
      (''useBabelModuleResolver'', JBool True)]"

text \<open>
  \<^verbatim>\<open>setOption(name, value)\<close>. The method \<^verbatim>\<open>hasOwnProperty\<close> is looked up on
  the options object itself: an own property of that name holds data, and calling it is
  a \<^verbatim>\<open>TypeError\<close>.
\<close>

definition setOption :: "string \<Rightarrow> jsval \<Rightarrow> twist \<Rightarrow> outcome" where
  "setOption name v st =
     (if has_own (cfg_options st) ''hasOwnProperty'' then (Some TypeError, st)
      else if \<not> has_own (cfg_options st) name
        then (Some (UnknownOption (''Twist Configuration option '' @ name @ '' is not defined.'')), st)
      else (None, st\<lparr>cfg_options := set_prop (cfg_options st) name v\<rparr>))"

text \<open>
  \<^verbatim>\<open>getOption(name)\<close> reads \<^verbatim>\<open>this._options[name]\<close>: the own property, or else
  the member of that name that every object inherits from \<^verbatim>\<open>Object.prototype\<close>, or
  else \<^verbatim>\<open>undefined\<close>.
\<close>

definition Object_prototype :: "string list" where
  "Object_prototype =
     [''constructor'', ''__defineGetter__'', ''__defineSetter__'', ''hasOwnProperty'',
      ''__lookupGetter__'', ''__lookupSetter__'', ''isPrototypeOf'', ''propertyIsEnumerable'',
      ''toString'', ''valueOf'', ''__proto__'', ''toLocaleString'']"

datatype property_value = Value jsval | Inherited string

definition getOption :: "string \<Rightarrow> twist \<Rightarrow> property_value" where
  "getOption name st =
     (case get_own (cfg_options st) name of
        Some v \<Rightarrow> Value v
      | None \<Rightarrow> if name \<in> set Object_prototype then Inherited name else Value JUndefined)"

subsection \<open>Components, decorators and plugins\<close>

definition addComponent :: "string \<Rightarrow> decl \<Rightarrow> twist \<Rightarrow> twist" where
  "addComponent name config st = st\<lparr>cfg_components := set_prop (cfg_components st) name config\<rparr>"

definition addDecorator :: "string \<Rightarrow> decl \<Rightarrow> twist \<Rightarrow> twist" where
  "addDecorator name config st = st\<lparr>cfg_decorators := set_prop (cfg_decorators st) name config\<rparr>"

definition addBabelPlugin :: "plugin \<Rightarrow> jsval \<Rightarrow> twist \<Rightarrow> twist" where
  "addBabelPlugin plugin opts st =
     (if find (\<lambda>item. fst item = plugin) (cfg_babelPlugins st) \<noteq> None then st
      else st\<lparr>cfg_babelPlugins := cfg_babelPlugins st @ [(plugin, opts)]\<rparr>)"

subsection \<open>Walking a section of a document\<close>

text \<open>Running a callback over a list stops at the first error, as the exception does.\<close>

fun for_each :: "('a \<Rightarrow> twist \<Rightarrow> outcome) \<Rightarrow> 'a list \<Rightarrow> twist \<Rightarrow> outcome" where
  "for_each f [] st = (None, st)"
| "for_each f (x # xs) st =
     (case f x st of
        (Some e, st') \<Rightarrow> (Some e, st')
      | (None, st') \<Rightarrow> for_each f xs st')"

text \<open>
  The calls \<^verbatim>\<open>_forEachConfig\<close> makes, in order. \<open>truthy_key\<close> is
  \<^verbatim>\<open>!!entry\<close> on a bare key, \<open>of_string\<close> turns a key of the map form into a key
  and \<open>or_empty\<close> is \<^verbatim>\<open>entry[1] || {}\<close>.
\<close>

fun entry_calls :: "('k \<Rightarrow> bool) \<Rightarrow> ('v option \<Rightarrow> 'v) \<Rightarrow> ('k, 'v) entry list \<Rightarrow> ('k \<times> 'v) list" where
  "entry_calls truthy_key or_empty [] = []"
| "entry_calls truthy_key or_empty (Falsy # es) = entry_calls truthy_key or_empty es"
| "entry_calls truthy_key or_empty (Tuple k v # es) =
     (k, or_empty v) # entry_calls truthy_key or_empty es"
| "entry_calls truthy_key or_empty (Bare k # es) =
     (if truthy_key k then (k, or_empty None) # entry_calls truthy_key or_empty es
      else entry_calls truthy_key or_empty es)"

fun config_calls ::
  "('k \<Rightarrow> bool) \<Rightarrow> (string \<Rightarrow> 'k) \<Rightarrow> ('v option \<Rightarrow> 'v) \<Rightarrow> ('k, 'v) config_items \<Rightarrow> ('k \<times> 'v) list" where
  "config_calls truthy_key of_string or_empty Absent = []"
| "config_calls truthy_key of_string or_empty (ArrayForm es) = entry_calls truthy_key or_empty es"
| "config_calls truthy_key of_string or_empty (ObjectForm ps) = map (\<lambda>p. (of_string (fst p), snd p)) ps"

definition or_empty_value :: "jsval option \<Rightarrow> jsval" where
  "or_empty_value v = (case v of None \<Rightarrow> empty_object | Some w \<Rightarrow> js_or w empty_object)"

definition or_empty_declaration :: "decl option \<Rightarrow> decl" where
  "or_empty_declaration v = (case v of None \<Rightarrow> empty_declaration | Some d \<Rightarrow> d)"

definition truthy_name :: "string \<Rightarrow> bool" where
  "truthy_name s = (s \<noteq> [])"

fun truthy_plugin :: "plugin \<Rightarrow> bool" where
  "truthy_plugin (PluginName s) = (s \<noteq> [])"
| "truthy_plugin (PluginRef r) = True"

definition forEachConfig ::
  "('k \<Rightarrow> bool) \<Rightarrow> (string \<Rightarrow> 'k) \<Rightarrow> ('v option \<Rightarrow> 'v) \<Rightarrow> ('k, 'v) config_items \<Rightarrow>
   ('k \<Rightarrow> 'v \<Rightarrow> twist \<Rightarrow> outcome) \<Rightarrow> twist \<Rightarrow> outcome" where
  "forEachConfig truthy_key of_string or_empty config callback st =
     for_each (\<lambda>call. callback (fst call) (snd call)) (config_calls truthy_key of_string or_empty config) st"

subsection \<open>The library loader\<close>

text \<open>A parameter with a default, \<^verbatim>\<open>options = {}\<close>: the default stands in for
  \<^verbatim>\<open>undefined\<close> only.\<close>

definition default_parameter :: "jsval \<Rightarrow> jsval \<Rightarrow> jsval" where
  "default_parameter v d = (if v = JUndefined then d else v)"

text \<open>\<^verbatim>\<open>LibraryLoader.getRootDir\<close>: the directory, or the error it throws.\<close>

definition getRootDir :: "env \<Rightarrow> string \<Rightarrow> error + string" where
  "getRootDir e libraryName =
     (case resolve e libraryName of
        None \<Rightarrow> Inl (ResolveError (''Failed to resolve '' @ libraryName @ '' - is it installed?''))
      | Some dir \<Rightarrow> Inr dir)"

text \<open>The constructor of \<^verbatim>\<open>LibraryInfo\<close> reads \<^verbatim>\<open>package.json\<close> when it is
  given a path; a file that cannot be read or parsed is an error.\<close>

definition new_LibraryInfo ::
  "env \<Rightarrow> string \<Rightarrow> jsval \<Rightarrow> LibraryInfo option \<Rightarrow> error + LibraryInfo" where
  "new_LibraryInfo e libraryPath opts parent =
     (if libraryPath = [] then Inr (LibraryInfo (Some libraryPath) opts parent None None)
      else case package_json e libraryPath of
        None \<Rightarrow> Inl (ManifestError libraryPath)
      | Some nv \<Rightarrow> Inr (LibraryInfo (Some libraryPath) opts parent (fst nv) (snd nv)))"

text \<open>\<^verbatim>\<open>loadConfigFile(options)\<close>: the document of the current library, \<open>None\<close>
  when it has neither file.\<close>

definition loadConfigFile :: "env \<Rightarrow> jsval \<Rightarrow> twist \<Rightarrow> error + document option" where
  "loadConfigFile e opts st =
     (case currentLibrary st of
        None \<Rightarrow> Inl TypeError
      | Some lib \<Rightarrow>
          (case lib_path lib of
             None \<Rightarrow> Inl TypeError
           | Some dir \<Rightarrow>
               (case twistrc e dir of
                  Some Malformed \<Rightarrow>
                    Inl (InvalidConfig (''Invalid .twistrc file at '' @ dir @ ''/.twistrc''
                           @ '' - please ensure it is valid JSON''))
                | Some (Parsed d) \<Rightarrow> Inr (Some d)
                | None \<Rightarrow>
                    (case twistrc_js e dir of
                       Some (ExportsFunction library) \<Rightarrow> Inr (Some (library opts))
                     | Some (ExportsDocument library) \<Rightarrow> Inr (Some library)
                     | None \<Rightarrow> Inr None))))"

definition conflict_message :: "LibraryInfo \<Rightarrow> LibraryInfo \<Rightarrow> string" where
  "conflict_message current conflictLib =
     ''You'' @ [CHR 0x27] @ ''re trying to load '' @ template_string (lib_name current) @ '' ''
       @ template_string (lib_version current) @ '', but ''
       @ template_string (lib_name conflictLib) @ '' '' @ template_string (lib_version conflictLib)
       @ '' was already loaded:'' @ [CHR 0x0A, CHR 0x0A]
       @ getLibraryChainStackTrace current
       @ [CHR 0x0A, CHR 0x0A]
       @ getLibraryChainStackTrace conflictLib @ [CHR 0x0A, CHR 0x0A]"

definition warn :: "string \<Rightarrow> twist \<Rightarrow> twist" where
  "warn msg st = st\<lparr>warnings := warnings st @ [msg]\<rparr>"

text \<open>The two tests \<^verbatim>\<open>load\<close> searches the loaded libraries with: the same path
  and options, and the same name with another version.\<close>

definition already_loaded :: "string \<Rightarrow> jsval \<Rightarrow> LibraryInfo \<Rightarrow> bool" where
  "already_loaded libraryPath opts lib \<longleftrightarrow>
     lib_path lib = Some libraryPath \<and> JSON_stringify (lib_options lib) = JSON_stringify opts"

definition conflicts_with :: "LibraryInfo \<Rightarrow> LibraryInfo \<Rightarrow> bool" where
  "conflicts_with libraryInfo lib \<longleftrightarrow>
     lib_name lib = lib_name libraryInfo \<and> lib_version lib \<noteq> lib_version libraryInfo"

text \<open>
  \<^verbatim>\<open>load(libraryName, options = {})\<close>. The loader is given the configuration it
  loads for; \<open>config_mergeConfig\<close> is \<^verbatim>\<open>this.config.mergeConfig\<close>.
\<close>

definition load ::
  "(document \<Rightarrow> twist \<Rightarrow> outcome) \<Rightarrow> env \<Rightarrow> string \<Rightarrow> jsval \<Rightarrow> twist \<Rightarrow> outcome" where
  "load config_mergeConfig e libraryName options_arg st =
     (let opts = default_parameter options_arg empty_object in
      case getRootDir e libraryName of
        Inl err \<Rightarrow> (Some err, st)
      | Inr libraryPath \<Rightarrow>
          if find (already_loaded libraryPath opts) (libraryInfos st) \<noteq> None
          then (None, st)
          else
            (case new_LibraryInfo e libraryPath opts (currentLibrary st) of
               Inl err \<Rightarrow> (Some err, st)
             | Inr libraryInfo \<Rightarrow>
                 (let st1 = st\<lparr>libraryInfos := libraryInfos st @ [libraryInfo],
                                currentLibrary := Some libraryInfo\<rparr> in
                  case find (conflicts_with libraryInfo) (libraryInfos st1) of
                    Some conflictLib \<Rightarrow>
                      (Some (VersionConflict (conflict_message libraryInfo conflictLib)), st1)
                  | None \<Rightarrow>
                      (case loadConfigFile e opts st1 of
                         Inl err \<Rightarrow> (Some err, st1)
                       | Inr libraryConfig \<Rightarrow>
                           (case (case libraryConfig of
                                    Some d \<Rightarrow> config_mergeConfig d st1
                                  | None \<Rightarrow>
                                      (None, warn (''Failed to find .twistrc file for '' @ libraryName
                                         @ '' - make sure that it has a configuration in its root'') st1)) of
                              (Some err, st2) \<Rightarrow> (Some err, st2)
                            | (None, st2) \<Rightarrow>
                                (None, st2\<lparr>currentLibrary := parentLibrary libraryInfo\<rparr>))))))"

subsection \<open>Merging a document\<close>

text \<open>\<^verbatim>\<open>this.currentLibrary.name\<close>, as the value a declaration is given.\<close>

definition string_value :: "string option \<Rightarrow> jsval" where
  "string_value v = (case v of None \<Rightarrow> JUndefined | Some s \<Rightarrow> JStr s)"

definition currentLibrary_name :: "twist \<Rightarrow> error + jsval" where
  "currentLibrary_name st =
     (case currentLibrary st of
        None \<Rightarrow> Inl TypeError
      | Some lib \<Rightarrow> Inr (string_value (lib_name lib)))"

text \<open>\<^verbatim>\<open>v || this.currentLibrary.name\<close>: the name is read only when \<open>v\<close> is falsy.\<close>

definition or_library_name :: "jsval \<Rightarrow> twist \<Rightarrow> error + jsval" where
  "or_library_name v st = (if truthy v then Inr v else currentLibrary_name st)"

text \<open>The callback of the decorators of a document.\<close>

definition merge_decorator :: "string \<Rightarrow> decl \<Rightarrow> twist \<Rightarrow> outcome" where
  "merge_decorator name config st =
     (case or_library_name (decl_module config) st of
        Inl err \<Rightarrow> (Some err, st)
      | Inr m \<Rightarrow>
          (let config1 = config\<lparr>decl_module := m, decl_export := js_or (decl_export config) (JStr name)\<rparr> in
           case decl_inherits config1 of
             None \<Rightarrow> (None, addDecorator name config1 st)
           | Some inh \<Rightarrow>
               if inh = InheritsName [] then (None, addDecorator name config1 st)
               else
                 (let obj = (case inh of
                               InheritsName s \<Rightarrow> InheritsDecl JUndefined (JStr s)
                             | InheritsDecl im ie \<Rightarrow> InheritsDecl im ie) in
                  case or_library_name (inh_module obj) st of
                    Inl err \<Rightarrow> (Some err, st)
                  | Inr im \<Rightarrow>
                      (None, addDecorator name
                         (config1\<lparr>decl_inherits := Some (InheritsDecl im (inh_export obj))\<rparr>) st))))"

text \<open>The callback of the components of a document.\<close>

definition merge_component :: "string \<Rightarrow> decl \<Rightarrow> twist \<Rightarrow> outcome" where
  "merge_component name config st =
     (case or_library_name (decl_module config) st of
        Inl err \<Rightarrow> (Some err, st)
      | Inr m \<Rightarrow>
          (None, addComponent name
             (config\<lparr>decl_module := m, decl_export := js_or (decl_export config) (JStr name)\<rparr>) st))"

text \<open>
  \<^verbatim>\<open>mergeConfig(config)\<close> and \<^verbatim>\<open>addLibrary\<close>, which call each other through the
  loader. A library may name a library that names it, so the first argument bounds the
  depth of the calls of \<^verbatim>\<open>mergeConfig\<close>; running out of it is the error
  \<open>OutOfFuel\<close>.
\<close>

primrec mergeConfig :: "nat \<Rightarrow> env \<Rightarrow> document \<Rightarrow> twist \<Rightarrow> outcome" where
  "mergeConfig 0 e config st = (Some OutOfFuel, st)"
| "mergeConfig (Suc fuel) e config st =
     (case forEachConfig truthy_name id or_empty_value (libraries config)
             (load (mergeConfig fuel e) e) (st\<lparr>mergeConfig_calls := Suc (mergeConfig_calls st)\<rparr>) of
        (Some err, st1) \<Rightarrow> (Some err, st1)
      | (None, st1) \<Rightarrow>
      (case forEachConfig truthy_name id or_empty_declaration (decorators config) merge_decorator st1 of
        (Some err, st2) \<Rightarrow> (Some err, st2)
      | (None, st2) \<Rightarrow>
      (case forEachConfig truthy_name id or_empty_declaration (components config) merge_component st2 of
        (Some err, st3) \<Rightarrow> (Some err, st3)
      | (None, st3) \<Rightarrow>
      (case forEachConfig truthy_plugin PluginName or_empty_value (babelPlugins config)
              (\<lambda>plugin opts s. (None, addBabelPlugin plugin opts s)) st3 of
        (Some err, st4) \<Rightarrow> (Some err, st4)
      | (None, st4) \<Rightarrow>
      (case forEachConfig truthy_name id or_empty_value (doc_options config) setOption st4 of
        (Some err, st5) \<Rightarrow> (Some err, st5)
      | (None, st5) \<Rightarrow>
      (case doc_context config of
         None \<Rightarrow> (None, st5)
       | Some contexts \<Rightarrow>
           mergeConfig fuel e
             (case get_own contexts (cfg_context st5) of None \<Rightarrow> empty_document | Some d \<Rightarrow> d)
             st5))))))"

definition addLibrary :: "nat \<Rightarrow> env \<Rightarrow> string \<Rightarrow> jsval \<Rightarrow> twist \<Rightarrow> outcome" where
  "addLibrary fuel e library opts st = load (mergeConfig fuel e) e library opts st"

subsection \<open>Constructing a configuration\<close>

text \<open>The string a value becomes when it is joined to a string.\<close>

fun js_to_string :: "jsval \<Rightarrow> string" and elements_to_strings :: "jsval list \<Rightarrow> string list" where
  "js_to_string JUndefined = ''undefined''"
| "js_to_string JNull = ''null''"
| "js_to_string (JBool b) = (if b then ''true'' else ''false'')"
| "js_to_string (JNum n) = number_to_string n"
| "js_to_string (JStr s) = s"
| "js_to_string (JArr xs) = join '','' (elements_to_strings xs)"
| "js_to_string (JObj ps) = ''[object Object]''"
| "elements_to_strings [] = []"
| "elements_to_strings (x # xs) =
     (if x = JUndefined \<or> x = JNull then [] else js_to_string x) # elements_to_strings xs"

text \<open>
  \<^verbatim>\<open>new TwistConfiguration(contextName, options = {})\<close>. An error thrown by the load
  of the root library leaves the constructor, and no configuration is made; the state
  it had reached is returned with the error.
\<close>

definition new_TwistConfiguration ::
  "nat \<Rightarrow> env \<Rightarrow> string option \<Rightarrow> (string \<times> jsval) list \<Rightarrow> outcome" where
  "new_TwistConfiguration fuel e contextName opts =
     (let st = \<lparr>cfg_context = (if truthy_string contextName then template_string contextName else ''node''),
                 cfg_options = object_assign (object_assign [] DEFAULT_OPTIONS) opts,
                 cfg_components = [],
                 cfg_decorators = [],
                 cfg_babelPlugins = [],
                 libraryInfos = [],
                 currentLibrary = Some root_library,
                 mergeConfig_calls = 0,
                 warnings = []\<rparr>;
          root = (case get_own opts ''root'' of None \<Rightarrow> JUndefined | Some r \<Rightarrow> r) in
      if root \<noteq> JNull
      then addLibrary fuel e (js_to_string (js_or root (JStr (cwd e)))) JUndefined st
      else (None, st))"

section \<open>Definitions for the properties\<close>

subsection \<open>Load chains\<close>







subsection \<open>Relations that every step keeps\<close>

text \<open>
  A relation between the state before and the state after that holds of a merge or a
  load as soon as it holds of their steps: it is reflexive and transitive, and it holds
  of counting a call, of a warning, of appending a record for a library loaded by the
  current one, of going back to the current library of the earlier state, of recording
  decorators, components and plugins, and of setting an option that exists.
\<close>

definition preserved :: "(twist \<Rightarrow> twist \<Rightarrow> bool) \<Rightarrow> bool" where
  "preserved R \<longleftrightarrow>
     (\<forall>st. R st st) \<and>
     (\<forall>a b c. R a b \<longrightarrow> R b c \<longrightarrow> R a c) \<and>
     (\<forall>st k. R st (st\<lparr>mergeConfig_calls := k\<rparr>)) \<and>
     (\<forall>st w. R st (st\<lparr>warnings := w\<rparr>)) \<and>
     (\<forall>st lib. parentLibrary lib = currentLibrary st \<longrightarrow>
        R st (st\<lparr>libraryInfos := libraryInfos st @ [lib], currentLibrary := Some lib\<rparr>)) \<and>
     (\<forall>st st2. R st st2 \<longrightarrow> R st (st2\<lparr>currentLibrary := currentLibrary st\<rparr>)) \<and>
     (\<forall>st ds. R st (st\<lparr>cfg_decorators := ds\<rparr>)) \<and>
     (\<forall>st cs. R st (st\<lparr>cfg_components := cs\<rparr>)) \<and>
     (\<forall>st ps. R st (st\<lparr>cfg_babelPlugins := cfg_babelPlugins st @ ps\<rparr>)) \<and>
     (\<forall>st k v. has_own (cfg_options st) k \<longrightarrow> R st (st\<lparr>cfg_options := set_prop (cfg_options st) k v\<rparr>))"

subsection \<open>The states of a configuration\<close>


subsection \<open>Plugin registrations\<close>

text \<open>The registrations that a sequence of calls of \<^verbatim>\<open>addBabelPlugin\<close> should keep:
  the first one of each plugin that is not registered yet, in the order of the calls.\<close>

fun first_registrations :: "plugin list \<Rightarrow> (plugin \<times> jsval) list \<Rightarrow> (plugin \<times> jsval) list" where
  "first_registrations seen [] = []"
| "first_registrations seen (call # calls) =
     (if fst call \<in> set seen then first_registrations seen calls
      else call # first_registrations (seen @ [fst call]) calls)"

subsection \<open>Example libraries\<close>

text \<open>
  A file system with six libraries. \<^verbatim>\<open>/a\<close> and \<^verbatim>\<open>/b\<close> are two versions of the
  library \<^verbatim>\<open>A\<close>, with no configuration file. \<^verbatim>\<open>/lib\<close> declares the component
  \<^verbatim>\<open>x\<close> as \<open>D1\<close>; \<^verbatim>\<open>/app\<close> names \<^verbatim>\<open>/lib\<close> as a library and declares
  \<^verbatim>\<open>x\<close> as \<open>D2\<close>. \<^verbatim>\<open>/xy\<close> is the library \<^verbatim>\<open>@x/y\<close>, which declares the
  decorator \<^verbatim>\<open>Store\<close> by its name; \<^verbatim>\<open>/bad\<close> sets an option that does not exist.
\<close>

definition D1 :: decl where
  "D1 = \<lparr>decl_module = JStr ''lib-module'', decl_export = JStr ''LibComponent'', decl_inherits = None\<rparr>"

definition D2 :: decl where
  "D2 = \<lparr>decl_module = JStr ''my-module'', decl_export = JStr ''OverriddenComponent'', decl_inherits = None\<rparr>"

definition example_env :: env where
  "example_env =
     \<lparr>resolve = (\<lambda>n. if n \<in> set [''/a'', ''/b'', ''/lib'', ''/app'', ''/xy'', ''/bad''] then Some n else None),
      package_json = (\<lambda>dir.
        if dir = ''/a'' then Some (Some ''A'', Some ''1.0'')
        else if dir = ''/b'' then Some (Some ''A'', Some ''2.0'')
        else if dir = ''/lib'' then Some (Some ''L'', Some ''1.0'')
        else if dir = ''/app'' then Some (Some ''app'', Some ''0.1.0'')
        else if dir = ''/xy'' then Some (Some ''@x/y'', Some ''1.0'')
        else if dir = ''/bad'' then Some (Some ''bad'', Some ''1.0'')
        else None),
      twistrc = (\<lambda>dir.
        if dir = ''/lib'' then Some (Parsed (Document Absent Absent (ObjectForm [(''x'', D1)]) Absent Absent None))
        else if dir = ''/app'' then Some (Parsed (Document (ArrayForm [Bare ''/lib'']) Absent
                                           (ObjectForm [(''x'', D2)]) Absent Absent None))
        else if dir = ''/xy'' then Some (Parsed (Document Absent (ArrayForm [Bare ''Store'']) Absent Absent Absent None))
        else if dir = ''/bad'' then Some (Parsed (Document Absent Absent Absent Absent
                                           (ObjectForm [(''doesNotExist'', JNum 1)]) None))
        else None),
      twistrc_js = (\<lambda>dir. None),
      cwd = ''/app''\<rparr>"

text \<open>Configurations made with \<^verbatim>\<open>root: null\<close>, which load nothing, the states after
  loading \<^verbatim>\<open>/a\<close> and then \<^verbatim>\<open>/b\<close>, and the records of the libraries.\<close>

definition idle :: twist where
  "idle = snd (new_TwistConfiguration 0 example_env None [(''root'', JNull)])"

definition loaded_a :: twist where
  "loaded_a = snd (addLibrary 1 example_env ''/a'' JUndefined idle)"

definition lib_a :: LibraryInfo where
  "lib_a = LibraryInfo (Some ''/a'') (JObj []) (Some root_library) (Some ''A'') (Some ''1.0'')"

definition lib_b :: LibraryInfo where
  "lib_b = LibraryInfo (Some ''/b'') (JObj []) (Some root_library) (Some ''A'') (Some ''2.0'')"



definition idle_minify :: twist where
  "idle_minify = snd (new_TwistConfiguration 0 example_env (Some ''node'')
                        [(''root'', JNull), (''minify'', JBool True)])"









definition after_conflict :: twist where
  "after_conflict = snd (addLibrary 1 example_env ''/b'' JUndefined loaded_a)"

section \<open>Lemmas\<close>

subsection \<open>Relations that every step keeps\<close>

lemma preservedD:
  assumes "preserved R"
  shows "R st st"
    and "R a b \<Longrightarrow> R b c \<Longrightarrow> R a c"
    and "R st (st\<lparr>mergeConfig_calls := k\<rparr>)"
    and "R st (st\<lparr>warnings := w\<rparr>)"
    and "parentLibrary lib = currentLibrary st \<Longrightarrow>
          R st (st\<lparr>libraryInfos := libraryInfos st @ [lib], currentLibrary := Some lib\<rparr>)"
    and "R st st2 \<Longrightarrow> R st (st2\<lparr>currentLibrary := currentLibrary st\<rparr>)"
    and "R st (st\<lparr>cfg_decorators := ds\<rparr>)"
    and "R st (st\<lparr>cfg_components := cs\<rparr>)"
    and "R st (st\<lparr>cfg_babelPlugins := cfg_babelPlugins st @ ps\<rparr>)"
    and "has_own (cfg_options st) k' \<Longrightarrow> R st (st\<lparr>cfg_options := set_prop (cfg_options st) k' v\<rparr>)"
  using assms unfolding preserved_def by simp_all

lemma for_each_preserved:
  assumes "preserved R"
    and "\<And>x s r s'. f x s = (r, s') \<Longrightarrow> R s s'"
    and "for_each f xs st = (r, st')"
  shows "R st st'"
  using assms(3)
proof (induction xs arbitrary: st)
  case Nil
  then show ?case using preservedD(1)[OF assms(1)] by simp
next
  case (Cons x xs)
  obtain r1 s1 where f: "f x st = (r1, s1)" by (cases "f x st")
  have R1: "R st s1" using assms(2)[OF f] .
  show ?case
  proof (cases r1)
    case None
    with Cons.prems f have "for_each f xs s1 = (r, st')" by simp
    then have "R s1 st'" by (rule Cons.IH)
    with R1 show ?thesis using preservedD(2)[OF assms(1)] by blast
  next
    case (Some err)
    with Cons.prems f have "st' = s1" by simp
    with R1 show ?thesis by simp
  qed
qed

lemma forEachConfig_preserved:
  assumes "preserved R"
    and "\<And>k v s r s'. callback k v s = (r, s') \<Longrightarrow> R s s'"
    and "forEachConfig tk os oe config callback st = (r, st')"
  shows "R st st'"
  using assms(3) unfolding forEachConfig_def
  by (rule for_each_preserved[OF assms(1), rotated]) (rule assms(2))

lemma new_LibraryInfo_parent:
  "new_LibraryInfo e p opts parent = Inr lib \<Longrightarrow>
     parentLibrary lib = parent \<and> lib_path lib = Some p \<and> lib_options lib = opts"
  by (auto simp: new_LibraryInfo_def split: if_splits option.splits)

lemma load_preserved:
  assumes P: "preserved R"
    and m: "\<And>d s r s'. m d s = (r, s') \<Longrightarrow> R s s'"
    and l: "load m e libraryName opts st = (r, st')"
  shows "R st st'"
proof -
  note D = preservedD[OF P]
  define o' where "o' = default_parameter opts empty_object"
  show ?thesis
  proof (cases "getRootDir e libraryName")
    case (Inl err)
    with l have "st' = st" by (simp add: load_def)
    then show ?thesis using D(1) by simp
  next
    case (Inr dir)
    show ?thesis
    proof (cases "find (already_loaded dir o') (libraryInfos st) \<noteq> None")
      case True
      with l Inr have "st' = st" by (simp add: load_def o'_def)
      then show ?thesis using D(1) by simp
    next
      case dup: False
      show ?thesis
      proof (cases "new_LibraryInfo e dir o' (currentLibrary st)")
        case (Inl err)
        with l Inr dup have "st' = st" by (simp add: load_def o'_def)
        then show ?thesis using D(1) by simp
      next
        case (Inr info)
        define st1 where "st1 = st\<lparr>libraryInfos := libraryInfos st @ [info], currentLibrary := Some info\<rparr>"
        have par: "parentLibrary info = currentLibrary st"
          using new_LibraryInfo_parent[OF Inr] by simp
        have R1: "R st st1" unfolding st1_def using D(5)[OF par] .
        show ?thesis
        proof (cases "find (conflicts_with info) (libraryInfos st1)")
          case (Some c)
          with l \<open>getRootDir e libraryName = Inr dir\<close> dup Inr have "st' = st1"
            by (simp add: load_def o'_def st1_def Let_def)
          with R1 show ?thesis by simp
        next
          case None
          show ?thesis
          proof (cases "loadConfigFile e o' st1")
            case (Inl err)
            with l \<open>getRootDir e libraryName = Inr dir\<close> dup Inr None have "st' = st1"
              by (simp add: load_def o'_def st1_def Let_def)
            with R1 show ?thesis by simp
          next
            case cfg: (Inr libraryConfig)
            define res where "res = (case libraryConfig of Some d \<Rightarrow> m d st1
              | None \<Rightarrow> (None, warn (''Failed to find .twistrc file for '' @ libraryName
                        @ '' - make sure that it has a configuration in its root'') st1))"
            obtain r2 st2 where res: "res = (r2, st2)" by (cases res)
            have R2: "R st1 st2"
            proof (cases libraryConfig)
              case None
              with res show ?thesis using D(4) by (auto simp: res_def warn_def)
            next
              case (Some d)
              with res show ?thesis using m by (auto simp: res_def)
            qed
            have R12: "R st st2" using D(2)[OF R1 R2] .
            have l': "(r, st') = (case res of (Some err, s2) \<Rightarrow> (Some err, s2)
                         | (None, s2) \<Rightarrow> (None, s2\<lparr>currentLibrary := parentLibrary info\<rparr>))"
              using l \<open>getRootDir e libraryName = Inr dir\<close> dup Inr None cfg
              unfolding load_def o'_def st1_def Let_def res_def by simp
            show ?thesis
            proof (cases r2)
              case None
              with l' res have "st' = st2\<lparr>currentLibrary := currentLibrary st\<rparr>" by (simp add: par)
              then show ?thesis using D(6)[OF R12] by simp
            next
              case (Some err)
              with l' res have "st' = st2" by simp
              then show ?thesis using R12 by simp
            qed
          qed
        qed
      qed
    qed
  qed
qed


lemma merge_decorator_preserved:
  assumes "preserved R" and "merge_decorator name config st = (r, st')"
  shows "R st st'"
  using assms(2) preservedD(1,7)[OF assms(1)]
  by (auto simp: merge_decorator_def addDecorator_def Let_def split: sum.splits option.splits if_splits)

lemma merge_component_preserved:
  assumes "preserved R" and "merge_component name config st = (r, st')"
  shows "R st st'"
  using assms(2) preservedD(1,8)[OF assms(1)]
  by (auto simp: merge_component_def addComponent_def split: sum.splits)

lemma addBabelPlugin_preserved:
  assumes "preserved R"
  shows "R st (addBabelPlugin plugin opts st)"
  using preservedD(1,9)[OF assms(1)]
  by (simp add: addBabelPlugin_def)

lemma setOption_preserved:
  assumes "preserved R" and "setOption name v st = (r, st')"
  shows "R st st'"
  using assms(2) preservedD(1,10)[OF assms(1)]
  by (auto simp: setOption_def split: if_splits)

lemma mergeConfig_preserved:
  assumes P: "preserved R"
  shows "mergeConfig fuel e config st = (r, st') \<Longrightarrow> R st st'"
proof (induction fuel arbitrary: config st r st')
  case 0
  then show ?case using preservedD(1)[OF P] by simp
next
  case (Suc fuel)
  note D = preservedD[OF P]
  define st0 where "st0 = st\<lparr>mergeConfig_calls := Suc (mergeConfig_calls st)\<rparr>"
  have R0: "R st st0" unfolding st0_def by (rule D(3))
  obtain r1 st1 where s1: "forEachConfig truthy_name id or_empty_value (libraries config)
             (load (mergeConfig fuel e) e) st0 = (r1, st1)" by (cases "forEachConfig truthy_name id or_empty_value (libraries config)
             (load (mergeConfig fuel e) e) st0")
  have R1: "R st0 st1"
    by (rule forEachConfig_preserved[OF P _ s1]) (rule load_preserved[OF P Suc.IH])
  obtain r2 st2 where s2: "forEachConfig truthy_name id or_empty_declaration (decorators config) merge_decorator st1 = (r2, st2)"
    by (cases "forEachConfig truthy_name id or_empty_declaration (decorators config) merge_decorator st1")
  have R2: "R st1 st2"
    by (rule forEachConfig_preserved[OF P _ s2]) (rule merge_decorator_preserved[OF P])
  obtain r3 st3 where s3: "forEachConfig truthy_name id or_empty_declaration (components config) merge_component st2 = (r3, st3)"
    by (cases "forEachConfig truthy_name id or_empty_declaration (components config) merge_component st2")
  have R3: "R st2 st3"
    by (rule forEachConfig_preserved[OF P _ s3]) (rule merge_component_preserved[OF P])
  obtain r4 st4 where s4: "forEachConfig truthy_plugin PluginName or_empty_value (babelPlugins config)
              (\<lambda>plugin opts s. (None, addBabelPlugin plugin opts s)) st3 = (r4, st4)"
    by (cases "forEachConfig truthy_plugin PluginName or_empty_value (babelPlugins config)
              (\<lambda>plugin opts s. (None, addBabelPlugin plugin opts s)) st3")
  have R4: "R st3 st4"
    by (rule forEachConfig_preserved[OF P _ s4]) (use addBabelPlugin_preserved[OF P] in auto)
  obtain r5 st5 where s5: "forEachConfig truthy_name id or_empty_value (doc_options config) setOption st4 = (r5, st5)"
    by (cases "forEachConfig truthy_name id or_empty_value (doc_options config) setOption st4")
  have R5: "R st4 st5"
    by (rule forEachConfig_preserved[OF P _ s5]) (rule setOption_preserved[OF P])
  note T = D(2)
  have R01: "R st st1" using T[OF R0 R1] .
  have R02: "R st st2" using T[OF R01 R2] .
  have R03: "R st st3" using T[OF R02 R3] .
  have R04: "R st st4" using T[OF R03 R4] .
  have R05: "R st st5" using T[OF R04 R5] .
  have unfold: "mergeConfig (Suc fuel) e config st =
     (case r1 of Some err \<Rightarrow> (Some err, st1) | None \<Rightarrow>
      case r2 of Some err \<Rightarrow> (Some err, st2) | None \<Rightarrow>
      case r3 of Some err \<Rightarrow> (Some err, st3) | None \<Rightarrow>
      case r4 of Some err \<Rightarrow> (Some err, st4) | None \<Rightarrow>
      case r5 of Some err \<Rightarrow> (Some err, st5) | None \<Rightarrow>
      (case doc_context config of
         None \<Rightarrow> (None, st5)
       | Some contexts \<Rightarrow>
           mergeConfig fuel e
             (case get_own contexts (cfg_context st5) of None \<Rightarrow> empty_document | Some d \<Rightarrow> d)
             st5))"
    using s1 s2 s3 s4 s5 unfolding st0_def
    by (simp split: option.splits)
  show ?case
  proof (cases "r1 = None \<and> r2 = None \<and> r3 = None \<and> r4 = None \<and> r5 = None")
    case False
    then have "st' \<in> {st1, st2, st3, st4, st5}"
      using Suc.prems unfolding unfold by (auto split: option.splits)
    then show ?thesis using R01 R02 R03 R04 R05 by auto
  next
    case True
    show ?thesis
    proof (cases "doc_context config")
      case None
      with True Suc.prems have "st' = st5" unfolding unfold by simp
      then show ?thesis using R05 by simp
    next
      case (Some contexts)
      with True Suc.prems have "mergeConfig fuel e
             (case get_own contexts (cfg_context st5) of None \<Rightarrow> empty_document | Some d \<Rightarrow> d)
             st5 = (r, st')" unfolding unfold by simp
      then have "R st5 st'" by (rule Suc.IH)
      then show ?thesis using T[OF R05] by blast
    qed
  qed
qed


lemma loader_preserved:
  assumes "preserved R" and "load (mergeConfig fuel e) e libraryName opts st = (r, st')"
  shows "R st st'"
  by (rule load_preserved[OF assms(1) _ assms(2)]) (rule mergeConfig_preserved[OF assms(1)])

subsection \<open>What a load does, case by case\<close>

lemma load_unresolved:
  "getRootDir e libraryName = Inl err \<Longrightarrow> load m e libraryName opts st = (Some err, st)"
  by (simp add: load_def)

lemma load_duplicate:
  "getRootDir e libraryName = Inr dir \<Longrightarrow>
   find (already_loaded dir (default_parameter opts empty_object)) (libraryInfos st) \<noteq> None \<Longrightarrow>
   load m e libraryName opts st = (None, st)"
  by (simp add: load_def)

lemma load_inserted:
  assumes "getRootDir e libraryName = Inr dir"
    and "find (already_loaded dir (default_parameter opts empty_object)) (libraryInfos st) = None"
    and "new_LibraryInfo e dir (default_parameter opts empty_object) (currentLibrary st) = Inr info"
  shows "load m e libraryName opts st =
     (case find (conflicts_with info) (libraryInfos st @ [info]) of
        Some conflictLib \<Rightarrow>
          (Some (VersionConflict (conflict_message info conflictLib)),
           st\<lparr>libraryInfos := libraryInfos st @ [info], currentLibrary := Some info\<rparr>)
      | None \<Rightarrow>
          (case loadConfigFile e (default_parameter opts empty_object)
                  (st\<lparr>libraryInfos := libraryInfos st @ [info], currentLibrary := Some info\<rparr>) of
             Inl err \<Rightarrow> (Some err, st\<lparr>libraryInfos := libraryInfos st @ [info], currentLibrary := Some info\<rparr>)
           | Inr libraryConfig \<Rightarrow>
               (case (case libraryConfig of
                        Some d \<Rightarrow> m d (st\<lparr>libraryInfos := libraryInfos st @ [info], currentLibrary := Some info\<rparr>)
                      | None \<Rightarrow>
                          (None, warn (''Failed to find .twistrc file for '' @ libraryName
                             @ '' - make sure that it has a configuration in its root'')
                             (st\<lparr>libraryInfos := libraryInfos st @ [info], currentLibrary := Some info\<rparr>))) of
                  (Some err, st2) \<Rightarrow> (Some err, st2)
                | (None, st2) \<Rightarrow> (None, st2\<lparr>currentLibrary := parentLibrary info\<rparr>))))"
  using assms unfolding load_def Let_def by simp

lemma find_conflict_appended:
  "find (conflicts_with info) (xs @ [info]) = find (conflicts_with info) xs"
  by (induction xs) (auto simp: conflicts_with_def)

subsection \<open>A call that returns leaves the current library as it found it\<close>

lemma load_returns_restored:
  assumes "load m e libraryName opts st = (None, st')"
  shows "currentLibrary st' = currentLibrary st"
proof (cases "getRootDir e libraryName")
  case (Inl err)
  with assms show ?thesis by (simp add: load_unresolved)
next
  case (Inr dir)
  show ?thesis
  proof (cases "find (already_loaded dir (default_parameter opts empty_object)) (libraryInfos st) = None")
    case False
    with assms Inr show ?thesis by (simp add: load_duplicate)
  next
    case True
    show ?thesis
    proof (cases "new_LibraryInfo e dir (default_parameter opts empty_object) (currentLibrary st)")
      case (Inl err)
      with assms Inr True show ?thesis by (simp add: load_def)
    next
      case info: (Inr info)
      from assms new_LibraryInfo_parent[OF info] show ?thesis
        unfolding load_inserted[OF Inr True info]
        by (auto split: option.splits sum.splits prod.splits)
    qed
  qed
qed

lemma for_each_returns_restored:
  assumes "\<And>x s s'. f x s = (None, s') \<Longrightarrow> currentLibrary s' = currentLibrary s"
    and "for_each f xs st = (None, st')"
  shows "currentLibrary st' = currentLibrary st"
  using assms(2)
proof (induction xs arbitrary: st)
  case Nil
  then show ?case by simp
next
  case (Cons x xs)
  obtain r1 s1 where f: "f x st = (r1, s1)" by (cases "f x st")
  with Cons.prems have r1: "r1 = None" and rest: "for_each f xs s1 = (None, st')"
    by (auto split: option.splits)
  from assms(1)[OF f[unfolded r1]] Cons.IH[OF rest] show ?case by simp
qed

lemma forEachConfig_returns_restored:
  assumes "\<And>k v s s'. callback k v s = (None, s') \<Longrightarrow> currentLibrary s' = currentLibrary s"
    and "forEachConfig tk os oe config callback st = (None, st')"
  shows "currentLibrary st' = currentLibrary st"
  using assms(2) unfolding forEachConfig_def
  by (rule for_each_returns_restored[rotated]) (rule assms(1))

lemma same_currentLibrary_preserved_steps:
  "merge_decorator name config st = (r, st') \<Longrightarrow> currentLibrary st' = currentLibrary st"
  "merge_component name config st = (r, st') \<Longrightarrow> currentLibrary st' = currentLibrary st"
  "currentLibrary (addBabelPlugin plugin v st) = currentLibrary st"
  "setOption name v st = (r, st') \<Longrightarrow> currentLibrary st' = currentLibrary st"
  by (auto simp: merge_decorator_def merge_component_def addBabelPlugin_def setOption_def
      addDecorator_def addComponent_def Let_def split: sum.splits option.splits if_splits)


lemma mergeConfig_returns_steps:
  assumes "mergeConfig (Suc fuel) e config st = (None, st')"
  obtains st1 st2 st3 st4 st5 where
    "forEachConfig truthy_name id or_empty_value (libraries config) (load (mergeConfig fuel e) e)
       (st\<lparr>mergeConfig_calls := Suc (mergeConfig_calls st)\<rparr>) = (None, st1)"
    "forEachConfig truthy_name id or_empty_declaration (decorators config) merge_decorator st1 = (None, st2)"
    "forEachConfig truthy_name id or_empty_declaration (components config) merge_component st2 = (None, st3)"
    "forEachConfig truthy_plugin PluginName or_empty_value (babelPlugins config)
       (\<lambda>plugin opts s. (None, addBabelPlugin plugin opts s)) st3 = (None, st4)"
    "forEachConfig truthy_name id or_empty_value (doc_options config) setOption st4 = (None, st5)"
    "case doc_context config of
       None \<Rightarrow> st' = st5
     | Some contexts \<Rightarrow>
         mergeConfig fuel e
           (case get_own contexts (cfg_context st5) of None \<Rightarrow> empty_document | Some d \<Rightarrow> d) st5 = (None, st')"
proof -
  obtain r1 st1 where s1: "forEachConfig truthy_name id or_empty_value (libraries config)
       (load (mergeConfig fuel e) e) (st\<lparr>mergeConfig_calls := Suc (mergeConfig_calls st)\<rparr>) = (r1, st1)"
    by (cases "forEachConfig truthy_name id or_empty_value (libraries config)
       (load (mergeConfig fuel e) e) (st\<lparr>mergeConfig_calls := Suc (mergeConfig_calls st)\<rparr>)")
  obtain r2 st2 where s2: "forEachConfig truthy_name id or_empty_declaration (decorators config) merge_decorator st1 = (r2, st2)"
    by (cases "forEachConfig truthy_name id or_empty_declaration (decorators config) merge_decorator st1")
  obtain r3 st3 where s3: "forEachConfig truthy_name id or_empty_declaration (components config) merge_component st2 = (r3, st3)"
    by (cases "forEachConfig truthy_name id or_empty_declaration (components config) merge_component st2")
  obtain r4 st4 where s4: "forEachConfig truthy_plugin PluginName or_empty_value (babelPlugins config)
       (\<lambda>plugin opts s. (None, addBabelPlugin plugin opts s)) st3 = (r4, st4)"
    by (cases "forEachConfig truthy_plugin PluginName or_empty_value (babelPlugins config)
       (\<lambda>plugin opts s. (None, addBabelPlugin plugin opts s)) st3")
  obtain r5 st5 where s5: "forEachConfig truthy_name id or_empty_value (doc_options config) setOption st4 = (r5, st5)"
    by (cases "forEachConfig truthy_name id or_empty_value (doc_options config) setOption st4")
  have r1: "r1 = None" using assms s1 by (auto split: option.splits)
  have r2: "r2 = None" using assms s1 s2 r1 by (auto split: option.splits)
  have r3: "r3 = None" using assms s1 s2 s3 r1 r2 by (auto split: option.splits)
  have r4: "r4 = None" using assms s1 s2 s3 s4 r1 r2 r3 by (auto split: option.splits)
  have r5: "r5 = None" using assms s1 s2 s3 s4 s5 r1 r2 r3 r4 by (auto split: option.splits)
  have last: "case doc_context config of
       None \<Rightarrow> st' = st5
     | Some contexts \<Rightarrow>
         mergeConfig fuel e
           (case get_own contexts (cfg_context st5) of None \<Rightarrow> empty_document | Some d \<Rightarrow> d) st5 = (None, st')"
    using assms s1 s2 s3 s4 s5 r1 r2 r3 r4 r5 by (auto split: option.splits)
  show thesis
    using that[OF s1[unfolded r1] s2[unfolded r2] s3[unfolded r3] s4[unfolded r4] s5[unfolded r5] last] .
qed

lemma mergeConfig_returns_restored:
  "mergeConfig fuel e config st = (None, st') \<Longrightarrow> currentLibrary st' = currentLibrary st"
proof (induction fuel arbitrary: config st st')
  case 0
  then show ?case by simp
next
  case (Suc fuel)
  from Suc.prems obtain st1 st2 st3 st4 st5 where
    s1: "forEachConfig truthy_name id or_empty_value (libraries config) (load (mergeConfig fuel e) e)
       (st\<lparr>mergeConfig_calls := Suc (mergeConfig_calls st)\<rparr>) = (None, st1)"
    and s2: "forEachConfig truthy_name id or_empty_declaration (decorators config) merge_decorator st1 = (None, st2)"
    and s3: "forEachConfig truthy_name id or_empty_declaration (components config) merge_component st2 = (None, st3)"
    and s4: "forEachConfig truthy_plugin PluginName or_empty_value (babelPlugins config)
       (\<lambda>plugin opts s. (None, addBabelPlugin plugin opts s)) st3 = (None, st4)"
    and s5: "forEachConfig truthy_name id or_empty_value (doc_options config) setOption st4 = (None, st5)"
    and s6: "case doc_context config of
       None \<Rightarrow> st' = st5
     | Some contexts \<Rightarrow>
         mergeConfig fuel e
           (case get_own contexts (cfg_context st5) of None \<Rightarrow> empty_document | Some d \<Rightarrow> d) st5 = (None, st')"
    by (rule mergeConfig_returns_steps)
  have c1: "currentLibrary st1 = currentLibrary st"
    using forEachConfig_returns_restored[OF load_returns_restored s1] by simp
  have c2: "currentLibrary st2 = currentLibrary st1"
    by (rule forEachConfig_returns_restored[OF _ s2]) (rule same_currentLibrary_preserved_steps)
  have c3: "currentLibrary st3 = currentLibrary st2"
    by (rule forEachConfig_returns_restored[OF _ s3]) (rule same_currentLibrary_preserved_steps)
  have c4: "currentLibrary st4 = currentLibrary st3"
    by (rule forEachConfig_returns_restored[OF _ s4]) (auto simp: same_currentLibrary_preserved_steps)
  have c5: "currentLibrary st5 = currentLibrary st4"
    by (rule forEachConfig_returns_restored[OF _ s5]) (rule same_currentLibrary_preserved_steps)
  have c6: "currentLibrary st' = currentLibrary st5"
    using s6 Suc.IH by (auto split: option.splits)
  show ?case using c1 c2 c3 c4 c5 c6 by simp
qed

subsection \<open>What no call changes\<close>

lemma set_prop_keys: "has_own obj k \<Longrightarrow> map fst (set_prop obj k v) = map fst obj"
  by (induction obj) (auto simp: has_own_def)

lemma preserved_option_keys:
  "preserved (\<lambda>a b. map fst (cfg_options b) = map fst (cfg_options a))"
  unfolding preserved_def by (simp add: set_prop_keys)




subsection \<open>Load chains\<close>










subsection \<open>The example libraries\<close>

lemma idle_state:
  "idle = \<lparr>cfg_context = ''node'',
            cfg_options = DEFAULT_OPTIONS @ [(''root'', JNull)],
            cfg_components = [],
            cfg_decorators = [],
            cfg_babelPlugins = [],
            libraryInfos = [],
            currentLibrary = Some root_library,
            mergeConfig_calls = 0,
            warnings = []\<rparr>"
  by (simp add: idle_def new_TwistConfiguration_def Let_def object_assign_def DEFAULT_OPTIONS_def
      truthy_string_def get_own_def)


subsection \<open>Property lists\<close>

lemma set_prop_key_set: "fst ` set (set_prop obj k v) = insert k (fst ` set obj)"
  by (induction obj) auto

lemma object_assign_key_set:
  "fst ` set (object_assign target source) = fst ` set target \<union> fst ` set source"
  unfolding object_assign_def
  by (induction source arbitrary: target) (auto simp: set_prop_key_set)

lemma get_own_set_prop: "get_own (set_prop obj k v) k = Some v"
  by (induction obj) (auto simp: get_own_def)

lemma get_own_None_iff: "get_own obj k = None \<longleftrightarrow> \<not> has_own obj k"
  by (simp add: get_own_def has_own_def map_of_eq_None_iff)


subsection \<open>The context of a document is merged last\<close>



lemma find_first_None_iff: "find (\<lambda>item. fst item = p) xs = None \<longleftrightarrow> p \<notin> fst ` set xs"
  by (induction xs) auto


subsection \<open>A conflict of versions\<close>

lemma conflict_found:
  assumes resolved: "getRootDir e libraryName = Inr dir"
    and fresh: "find (already_loaded dir (default_parameter opts empty_object)) (libraryInfos st) = None"
    and made: "new_LibraryInfo e dir (default_parameter opts empty_object) (currentLibrary st) = Inr info"
    and existing: "existing \<in> set (libraryInfos st)"
    and same_name: "lib_name existing = lib_name info"
    and other_version: "lib_version existing \<noteq> lib_version info"
  shows "\<exists>conflictLib head st'.
           find (conflicts_with info) (libraryInfos st) = Some conflictLib
         \<and> load m e libraryName opts st =
              (Some (VersionConflict
                 (head @ getLibraryChainStackTrace info @ [CHR 0x0A, CHR 0x0A]
                    @ getLibraryChainStackTrace conflictLib @ [CHR 0x0A, CHR 0x0A])), st')
         \<and> libraryInfos st' = libraryInfos st @ [info]
         \<and> existing \<in> set (libraryInfos st') \<and> info \<in> set (libraryInfos st')
         \<and> conflictLib \<in> set (libraryInfos st)
         \<and> lib_name conflictLib = lib_name info \<and> lib_version conflictLib \<noteq> lib_version info"
proof -
  have "conflicts_with info existing"
    using same_name other_version by (simp add: conflicts_with_def)
  with existing have "find (conflicts_with info) (libraryInfos st) \<noteq> None"
    by (auto simp: find_None_iff)
  then obtain conflictLib where c: "find (conflicts_with info) (libraryInfos st) = Some conflictLib"
    by auto
  then have c_in: "conflictLib \<in> set (libraryInfos st)" and c_conf: "conflicts_with info conflictLib"
    by (auto simp: find_Some_iff)
  define st' where "st' = st\<lparr>libraryInfos := libraryInfos st @ [info], currentLibrary := Some info\<rparr>"
  have "load m e libraryName opts st = (Some (VersionConflict (conflict_message info conflictLib)), st')"
    unfolding load_inserted[OF resolved fresh made] find_conflict_appended c st'_def by simp
  moreover have "\<exists>head. conflict_message info conflictLib =
      head @ getLibraryChainStackTrace info @ [CHR 0x0A, CHR 0x0A]
        @ getLibraryChainStackTrace conflictLib @ [CHR 0x0A, CHR 0x0A]"
    unfolding conflict_message_def by (metis append.assoc)
  moreover have "libraryInfos st' = libraryInfos st @ [info]" by (simp add: st'_def)
  ultimately show ?thesis
    using c c_in c_conf existing by (auto simp: conflicts_with_def)
qed

section \<open>The current library across a load\<close>





section \<open>The load chain of a record\<close>




section \<open>Version conflicts\<close>

text \<open>
  C3, as the code has it. A load that passes the check for a library already loaded and
  appends a record whose name is the name of a library in the list and whose version
  differs from that library's fails with the version conflict error. Its message ends
  with the trace of the new record, an empty line, the trace of the conflicting record
  (the first such record in the list), and an empty line. The failed load leaves the
  list with the new record appended, so both records are in it. A load of a path and
  options that are in the list already returns at once, whatever the names and versions
  in the list.
\<close>

theorem version_conflict_keeps_both_records:
  assumes resolved: "getRootDir e libraryName = Inr dir"
  shows "(find (already_loaded dir (default_parameter opts empty_object)) (libraryInfos st) = None
          \<and> new_LibraryInfo e dir (default_parameter opts empty_object) (currentLibrary st) = Inr info
          \<and> existing \<in> set (libraryInfos st)
          \<and> lib_name existing = lib_name info \<and> lib_version existing \<noteq> lib_version info
          \<longrightarrow> (\<exists>conflictLib head st'.
                 find (conflicts_with info) (libraryInfos st) = Some conflictLib
               \<and> load m e libraryName opts st =
                    (Some (VersionConflict
                       (head @ getLibraryChainStackTrace info @ [CHR 0x0A, CHR 0x0A]
                          @ getLibraryChainStackTrace conflictLib @ [CHR 0x0A, CHR 0x0A])), st')
               \<and> libraryInfos st' = libraryInfos st @ [info]
               \<and> existing \<in> set (libraryInfos st') \<and> info \<in> set (libraryInfos st')
               \<and> conflictLib \<in> set (libraryInfos st)
               \<and> lib_name conflictLib = lib_name info \<and> lib_version conflictLib \<noteq> lib_version info))
       \<and> (find (already_loaded dir (default_parameter opts empty_object)) (libraryInfos st) \<noteq> None
          \<longrightarrow> load m e libraryName opts st = (None, st))"
proof (intro conjI impI)
  assume a: "find (already_loaded dir (default_parameter opts empty_object)) (libraryInfos st) = None
          \<and> new_LibraryInfo e dir (default_parameter opts empty_object) (currentLibrary st) = Inr info
          \<and> existing \<in> set (libraryInfos st)
          \<and> lib_name existing = lib_name info \<and> lib_version existing \<noteq> lib_version info"
  then show "\<exists>conflictLib head st'.
                 find (conflicts_with info) (libraryInfos st) = Some conflictLib
               \<and> load m e libraryName opts st =
                    (Some (VersionConflict
                       (head @ getLibraryChainStackTrace info @ [CHR 0x0A, CHR 0x0A]
                          @ getLibraryChainStackTrace conflictLib @ [CHR 0x0A, CHR 0x0A])), st')
               \<and> libraryInfos st' = libraryInfos st @ [info]
               \<and> existing \<in> set (libraryInfos st') \<and> info \<in> set (libraryInfos st')
               \<and> conflictLib \<in> set (libraryInfos st)
               \<and> lib_name conflictLib = lib_name info \<and> lib_version conflictLib \<noteq> lib_version info"
    using conflict_found[OF resolved, of opts st info existing m] by blast
next
  assume "find (already_loaded dir (default_parameter opts empty_object)) (libraryInfos st) \<noteq> None"
  then show "load m e libraryName opts st = (None, st)"
    using resolved by (simp add: load_duplicate)
qed

theorem version_conflict_keeps_both_records_witness:
  "getRootDir example_env ''/b'' = Inr ''/b''
   \<and> find (already_loaded ''/b'' (default_parameter JUndefined empty_object)) (libraryInfos loaded_a) = None
   \<and> new_LibraryInfo example_env ''/b'' (default_parameter JUndefined empty_object) (currentLibrary loaded_a) = Inr lib_b
   \<and> lib_a \<in> set (libraryInfos loaded_a)
   \<and> lib_name lib_a = lib_name lib_b \<and> lib_version lib_a \<noteq> lib_version lib_b
   \<and> (\<exists>head.
         load (mergeConfig 1 example_env) example_env ''/b'' JUndefined loaded_a =
           (Some (VersionConflict
              (head @ getLibraryChainStackTrace lib_b @ [CHR 0x0A, CHR 0x0A]
                 @ getLibraryChainStackTrace lib_a @ [CHR 0x0A, CHR 0x0A])),
            loaded_a\<lparr>libraryInfos := [lib_a, lib_b], currentLibrary := Some lib_b\<rparr>))
   \<and> find (already_loaded ''/b'' (default_parameter JUndefined empty_object)) (libraryInfos after_conflict) \<noteq> None
   \<and> load (mergeConfig 1 example_env) example_env ''/b'' JUndefined after_conflict = (None, after_conflict)"
proof -
  have resolved: "getRootDir example_env ''/b'' = Inr ''/b''"
    by (simp add: getRootDir_def example_env_def)
  have infos: "libraryInfos loaded_a = [lib_a]" and cur: "currentLibrary loaded_a = Some root_library"
    by code_simp+
  have fresh: "find (already_loaded ''/b'' (default_parameter JUndefined empty_object)) (libraryInfos loaded_a) = None"
    unfolding infos by (simp add: already_loaded_def lib_a_def)
  have made: "new_LibraryInfo example_env ''/b'' (default_parameter JUndefined empty_object) (currentLibrary loaded_a) = Inr lib_b"
    unfolding cur
    by (simp add: new_LibraryInfo_def example_env_def lib_b_def default_parameter_def empty_object_def)
  have existing: "lib_a \<in> set (libraryInfos loaded_a)" unfolding infos by simp
  have same_name: "lib_name lib_a = lib_name lib_b" and other_version: "lib_version lib_a \<noteq> lib_version lib_b"
    by (simp_all add: lib_a_def lib_b_def)
  have first: "find (conflicts_with lib_b) (libraryInfos loaded_a) = Some lib_a"
    unfolding infos by (simp add: conflicts_with_def lib_a_def lib_b_def)
  from version_conflict_keeps_both_records[OF resolved, of JUndefined loaded_a lib_b lib_a
      "mergeConfig 1 example_env"] fresh made existing same_name other_version
  obtain conflictLib head st' where
    c: "find (conflicts_with lib_b) (libraryInfos loaded_a) = Some conflictLib"
    and l: "load (mergeConfig 1 example_env) example_env ''/b'' JUndefined loaded_a =
              (Some (VersionConflict
                 (head @ getLibraryChainStackTrace lib_b @ [CHR 0x0A, CHR 0x0A]
                    @ getLibraryChainStackTrace conflictLib @ [CHR 0x0A, CHR 0x0A])), st')"
    by blast
  from c first have eq: "conflictLib = lib_a" by simp
  have "snd (load (mergeConfig 1 example_env) example_env ''/b'' JUndefined loaded_a)
          = loaded_a\<lparr>libraryInfos := [lib_a, lib_b], currentLibrary := Some lib_b\<rparr>"
    unfolding load_inserted[OF resolved fresh made] find_conflict_appended first by (simp add: infos)
  with l have "st' = loaded_a\<lparr>libraryInfos := [lib_a, lib_b], currentLibrary := Some lib_b\<rparr>" by simp
  with l eq have part1: "\<exists>head.
         load (mergeConfig 1 example_env) example_env ''/b'' JUndefined loaded_a =
           (Some (VersionConflict
              (head @ getLibraryChainStackTrace lib_b @ [CHR 0x0A, CHR 0x0A]
                 @ getLibraryChainStackTrace lib_a @ [CHR 0x0A, CHR 0x0A])),
            loaded_a\<lparr>libraryInfos := [lib_a, lib_b], currentLibrary := Some lib_b\<rparr>)"
    by blast
  have again: "find (already_loaded ''/b'' (default_parameter JUndefined empty_object)) (libraryInfos after_conflict) \<noteq> None"
    by code_simp
  from version_conflict_keeps_both_records[OF resolved, of JUndefined after_conflict _ _
      "mergeConfig 1 example_env"] again
  have part2: "load (mergeConfig 1 example_env) example_env ''/b'' JUndefined after_conflict = (None, after_conflict)"
    by blast
  from resolved fresh made existing same_name other_version part1 again part2 show ?thesis by blast
qed

text \<open>
  The load that failed on the conflict, tried again: its record is in the list, so the
  load returns with no error, although the list holds the same name at another path
  with another version.
\<close>

theorem retried_load_returns:
  "libraryInfos after_conflict = [lib_a, lib_b]
   \<and> getRootDir example_env ''/b'' = Inr ''/b''
   \<and> package_json example_env ''/b'' = Some (Some ''A'', Some ''2.0'')
   \<and> lib_name lib_a = Some ''A'' \<and> lib_path lib_a = Some ''/a'' \<and> lib_version lib_a = Some ''1.0''
   \<and> fst (addLibrary 1 example_env ''/b'' JUndefined after_conflict) = None
   \<and> libraryInfos (snd (addLibrary 1 example_env ''/b'' JUndefined after_conflict)) = [lib_a, lib_b]"
  by code_simp

section \<open>Loading a library again\<close>



section \<open>The keys of the options\<close>

text \<open>
  C2, as the code has it. For every name that is not an own key of the options object,
  \<^verbatim>\<open>setOption\<close> fails with the unknown option error and leaves the state as it was
  (the options object having no own key \<^verbatim>\<open>hasOwnProperty\<close>, which would shadow the
  method). No configuration document and no load of a library changes the keys of the
  options object. The keys are not the seven default keys alone: the constructor copies
  every key of the options it is given into the options object, so they are the seven
  default keys and the keys of the constructor's options (options with no own key
  \<^verbatim>\<open>__proto__\<close>, which \<^verbatim>\<open>Object.assign\<close> would hand to the prototype).
\<close>

theorem unknown_option_rejected:
  "(\<not> has_own (cfg_options st) ''hasOwnProperty'' \<and> \<not> has_own (cfg_options st) name
      \<longrightarrow> setOption name v st = (Some (UnknownOption (''Twist Configuration option '' @ name @ '' is not defined.'')), st))
   \<and> (mergeConfig fuel e config st = (r, st') \<longrightarrow> map fst (cfg_options st') = map fst (cfg_options st))
   \<and> (addLibrary fuel e library opts st = (r, st') \<longrightarrow> map fst (cfg_options st') = map fst (cfg_options st))
   \<and> (\<not> has_own opts0 ''__proto__'' \<and> new_TwistConfiguration fuel e contextName opts0 = (r0, st0)
      \<longrightarrow> set (map fst (cfg_options st0)) = set (map fst DEFAULT_OPTIONS) \<union> set (map fst opts0))"
proof (intro conjI impI)
  assume "\<not> has_own (cfg_options st) ''hasOwnProperty'' \<and> \<not> has_own (cfg_options st) name"
  then show "setOption name v st = (Some (UnknownOption (''Twist Configuration option '' @ name @ '' is not defined.'')), st)"
    by (simp add: setOption_def)
next
  assume "mergeConfig fuel e config st = (r, st')"
  from mergeConfig_preserved[OF preserved_option_keys this]
  show "map fst (cfg_options st') = map fst (cfg_options st)" .
next
  assume "addLibrary fuel e library opts st = (r, st')"
  from loader_preserved[OF preserved_option_keys this[unfolded addLibrary_def]]
  show "map fst (cfg_options st') = map fst (cfg_options st)" .
next
  assume a: "\<not> has_own opts0 ''__proto__'' \<and> new_TwistConfiguration fuel e contextName opts0 = (r0, st0)"
  define st where "st = \<lparr>cfg_context = (if truthy_string contextName then template_string contextName else ''node''),
                 cfg_options = object_assign (object_assign [] DEFAULT_OPTIONS) opts0,
                 cfg_components = [],
                 cfg_decorators = [],
                 cfg_babelPlugins = [],
                 libraryInfos = [],
                 currentLibrary = Some root_library,
                 mergeConfig_calls = 0,
                 warnings = []\<rparr>"
  have keys: "set (map fst (cfg_options st)) = set (map fst DEFAULT_OPTIONS) \<union> set (map fst opts0)"
    by (simp add: st_def object_assign_key_set)
  have "st0 = st \<or> (\<exists>lib. addLibrary fuel e lib JUndefined st = (r0, st0))"
    using a unfolding new_TwistConfiguration_def st_def Let_def by (auto split: if_splits)
  then have "map fst (cfg_options st0) = map fst (cfg_options st)"
    using loader_preserved[OF preserved_option_keys] by (auto simp: addLibrary_def)
  with keys show "set (map fst (cfg_options st0)) = set (map fst DEFAULT_OPTIONS) \<union> set (map fst opts0)"
    by simp
qed

theorem unknown_option_rejected_witness:
  "\<not> has_own (cfg_options idle) ''hasOwnProperty'' \<and> \<not> has_own (cfg_options idle) ''doesNotExist''
   \<and> setOption ''doesNotExist'' (JNum 1) idle = (Some (UnknownOption ''Twist Configuration option doesNotExist is not defined.''), idle)
   \<and> map fst (cfg_options (snd (mergeConfig 2 example_env
                (Document Absent Absent Absent Absent (ObjectForm [(''doesNotExist'', JNum 1)]) None) idle)))
        = map fst (cfg_options idle)
   \<and> map fst (cfg_options (snd (addLibrary 2 example_env ''/app'' JUndefined idle))) = map fst (cfg_options idle)
   \<and> \<not> has_own [(''root'', JNull)] ''__proto__''
   \<and> set (map fst (cfg_options idle)) = set (map fst DEFAULT_OPTIONS) \<union> set (map fst [(''root'', JNull)])"
proof -
  have h: "\<not> has_own (cfg_options idle) ''hasOwnProperty'' \<and> \<not> has_own (cfg_options idle) ''doesNotExist''"
    by (simp add: idle_state has_own_def DEFAULT_OPTIONS_def)
  have p: "\<not> has_own [(''root'', JNull)] ''__proto__''" by (simp add: has_own_def)
  note t = unknown_option_rejected[of idle "''doesNotExist''" "JNum 1" 2 example_env
      "Document Absent Absent Absent Absent (ObjectForm [(''doesNotExist'', JNum 1)]) None"]
  have k1: "setOption ''doesNotExist'' (JNum 1) idle = (Some (UnknownOption ''Twist Configuration option doesNotExist is not defined.''), idle)"
    using t h by simp
  have k2: "map fst (cfg_options (snd (mergeConfig 2 example_env
                (Document Absent Absent Absent Absent (ObjectForm [(''doesNotExist'', JNum 1)]) None) idle)))
        = map fst (cfg_options idle)"
    using t[where r = "fst (mergeConfig 2 example_env
             (Document Absent Absent Absent Absent (ObjectForm [(''doesNotExist'', JNum 1)]) None) idle)"
          and st' = "snd (mergeConfig 2 example_env
             (Document Absent Absent Absent Absent (ObjectForm [(''doesNotExist'', JNum 1)]) None) idle)"]
    by simp
  have k3: "map fst (cfg_options (snd (addLibrary 2 example_env ''/app'' JUndefined idle))) = map fst (cfg_options idle)"
    using t[where library = "''/app''" and opts = JUndefined
          and r = "fst (addLibrary 2 example_env ''/app'' JUndefined idle)"
          and st' = "snd (addLibrary 2 example_env ''/app'' JUndefined idle)"]
    by simp
  have c: "new_TwistConfiguration 0 example_env None [(''root'', JNull)]
           = (fst (new_TwistConfiguration 0 example_env None [(''root'', JNull)]), idle)"
    by (simp add: idle_def)
  have k4: "set (map fst (cfg_options idle)) = set (map fst DEFAULT_OPTIONS) \<union> set (map fst [(''root'', JNull)])"
    using unknown_option_rejected[where ?opts0.0 = "[(''root'', JNull)]" and contextName = None
          and ?st0.0 = idle and e = example_env
          and ?r0.0 = "fst (new_TwistConfiguration 0 example_env None [(''root'', JNull)])" and fuel = 0]
      p c by blast
  from h p k1 k2 k3 k4 show ?thesis by blast
qed

text \<open>
  A key that is none of the seven, \<^verbatim>\<open>root\<close>, given to the constructor: \<^verbatim>\<open>setOption\<close>
  takes it.
\<close>

theorem constructor_options_add_keys:
  "map fst DEFAULT_OPTIONS = [''includeBabelRuntime'', ''jsxSourceLines'', ''polyfill'', ''regenerator'',
                              ''targets'', ''transformImports'', ''useBabelModuleResolver'']
   \<and> idle = snd (new_TwistConfiguration 0 example_env None [(''root'', JNull)])
   \<and> getOption ''root'' idle = Value JNull
   \<and> fst (setOption ''root'' (JStr ''/elsewhere'') idle) = None
   \<and> getOption ''root'' (snd (setOption ''root'' (JStr ''/elsewhere'') idle)) = Value (JStr ''/elsewhere'')"
proof -
  have "idle = snd (new_TwistConfiguration 0 example_env None [(''root'', JNull)])"
    by (simp add: idle_def)
  moreover have "map fst DEFAULT_OPTIONS = [''includeBabelRuntime'', ''jsxSourceLines'', ''polyfill'',
      ''regenerator'', ''targets'', ''transformImports'', ''useBabelModuleResolver'']"
    by (simp add: DEFAULT_OPTIONS_def)
  moreover have "getOption ''root'' idle = Value JNull
   \<and> fst (setOption ''root'' (JStr ''/elsewhere'') idle) = None
   \<and> getOption ''root'' (snd (setOption ''root'' (JStr ''/elsewhere'') idle)) = Value (JStr ''/elsewhere'')"
    by code_simp
  ultimately show ?thesis by blast
qed

section \<open>Reading an option\<close>

text \<open>
  C10, as the code has it. For every name that is not an own key of the options object
  and is not a member that every object inherits (\<^verbatim>\<open>toString\<close>, \<^verbatim>\<open>constructor\<close> and
  the like), \<^verbatim>\<open>getOption\<close> returns \<^verbatim>\<open>undefined\<close>; it never fails and, being a read,
  changes nothing; \<^verbatim>\<open>setOption\<close> rejects the same name. A key that the constructor's
  options added is an own key like the seven default ones: \<^verbatim>\<open>getOption\<close> returns its
  value and \<^verbatim>\<open>setOption\<close> sets it.
\<close>

theorem unknown_option_reads_undefined:
  "(\<not> has_own (cfg_options st) name \<and> name \<notin> set Object_prototype
      \<longrightarrow> getOption name st = Value JUndefined)
   \<and> (\<not> has_own (cfg_options st) name \<and> \<not> has_own (cfg_options st) ''hasOwnProperty''
      \<longrightarrow> setOption name v st = (Some (UnknownOption (''Twist Configuration option '' @ name @ '' is not defined.'')), st))
   \<and> (has_own (cfg_options st) name
      \<longrightarrow> (\<exists>w. get_own (cfg_options st) name = Some w \<and> getOption name st = Value w))
   \<and> (has_own (cfg_options st) name \<and> \<not> has_own (cfg_options st) ''hasOwnProperty''
      \<longrightarrow> fst (setOption name v st) = None
          \<and> getOption name (snd (setOption name v st)) = Value v)"
proof (intro conjI impI)
  assume "\<not> has_own (cfg_options st) name \<and> name \<notin> set Object_prototype"
  then show "getOption name st = Value JUndefined"
    using get_own_None_iff[of "cfg_options st" name] by (simp add: getOption_def)
next
  assume "\<not> has_own (cfg_options st) name \<and> \<not> has_own (cfg_options st) ''hasOwnProperty''"
  then show "setOption name v st = (Some (UnknownOption (''Twist Configuration option '' @ name @ '' is not defined.'')), st)"
    by (simp add: setOption_def)
next
  assume "has_own (cfg_options st) name"
  then obtain w where "get_own (cfg_options st) name = Some w"
    using get_own_None_iff[of "cfg_options st" name] by (cases "get_own (cfg_options st) name") auto
  then show "\<exists>w. get_own (cfg_options st) name = Some w \<and> getOption name st = Value w"
    by (simp add: getOption_def)
next
  assume a: "has_own (cfg_options st) name \<and> \<not> has_own (cfg_options st) ''hasOwnProperty''"
  then show "fst (setOption name v st) = None"
    by (simp add: setOption_def)
next
  assume a: "has_own (cfg_options st) name \<and> \<not> has_own (cfg_options st) ''hasOwnProperty''"
  then show "getOption name (snd (setOption name v st)) = Value v"
    by (simp add: setOption_def getOption_def get_own_set_prop)
qed

theorem unknown_option_reads_undefined_witness:
  "\<not> has_own (cfg_options idle) ''doesNotExist'' \<and> ''doesNotExist'' \<notin> set Object_prototype
   \<and> \<not> has_own (cfg_options idle) ''hasOwnProperty''
   \<and> getOption ''doesNotExist'' idle = Value JUndefined
   \<and> setOption ''doesNotExist'' (JNum 1) idle = (Some (UnknownOption ''Twist Configuration option doesNotExist is not defined.''), idle)
   \<and> has_own (cfg_options idle) ''regenerator''
   \<and> getOption ''regenerator'' idle = Value (JBool False)
   \<and> fst (setOption ''regenerator'' (JBool True) idle) = None
   \<and> getOption ''regenerator'' (snd (setOption ''regenerator'' (JBool True) idle)) = Value (JBool True)"
proof -
  have a: "\<not> has_own (cfg_options idle) ''doesNotExist''" "''doesNotExist'' \<notin> set Object_prototype"
    "\<not> has_own (cfg_options idle) ''hasOwnProperty''" "has_own (cfg_options idle) ''regenerator''"
    "get_own (cfg_options idle) ''regenerator'' = Some (JBool False)"
    by (simp_all add: idle_state has_own_def get_own_def DEFAULT_OPTIONS_def Object_prototype_def)
  from unknown_option_reads_undefined[of idle "''doesNotExist''" "JNum 1"]
       unknown_option_reads_undefined[of idle "''regenerator''" "JBool True"] a
  show ?thesis by auto
qed

text \<open>
  Two names outside the seven default keys that \<^verbatim>\<open>getOption\<close> does not read as
  \<^verbatim>\<open>undefined\<close>: a key the constructor was given, which \<^verbatim>\<open>setOption\<close> accepts as
  well, and an inherited member.
\<close>

theorem extra_options_are_read:
  "''minify'' \<notin> set (map fst DEFAULT_OPTIONS)
   \<and> idle_minify = snd (new_TwistConfiguration 0 example_env (Some ''node'')
                          [(''root'', JNull), (''minify'', JBool True)])
   \<and> getOption ''minify'' idle_minify = Value (JBool True)
   \<and> getOption ''minify'' idle_minify \<noteq> Value JUndefined
   \<and> fst (setOption ''minify'' (JBool False) idle_minify) = None
   \<and> getOption ''minify'' (snd (setOption ''minify'' (JBool False) idle_minify)) = Value (JBool False)
   \<and> ''toString'' \<notin> set (map fst DEFAULT_OPTIONS)
   \<and> getOption ''toString'' idle_minify = Inherited ''toString''"
proof -
  have "idle_minify = snd (new_TwistConfiguration 0 example_env (Some ''node'')
                          [(''root'', JNull), (''minify'', JBool True)])"
    by (simp add: idle_minify_def)
  moreover have "''minify'' \<notin> set (map fst DEFAULT_OPTIONS) \<and> ''toString'' \<notin> set (map fst DEFAULT_OPTIONS)"
    by (simp add: DEFAULT_OPTIONS_def)
  moreover have "getOption ''minify'' idle_minify = Value (JBool True)
   \<and> fst (setOption ''minify'' (JBool False) idle_minify) = None
   \<and> getOption ''minify'' (snd (setOption ''minify'' (JBool False) idle_minify)) = Value (JBool False)
   \<and> getOption ''toString'' idle_minify = Inherited ''toString''"
    by code_simp
  ultimately show ?thesis by simp
qed


section \<open>Documents under a context\<close>




section \<open>Defaults of a decorator\<close>




section \<open>Registering Babel plugins\<close>

text \<open>
  C8. A call of \<^verbatim>\<open>addBabelPlugin\<close> for a plugin that an entry of the list already
  has leaves the configuration as it is: the registration is dropped, and the options of
  the earlier entry stay. A call for any other plugin appends the plugin with its
  options. So a sequence of calls leaves the list it found, followed by the first
  registration of each new plugin, in the order of the calls.
\<close>

theorem plugins_keep_first_registration:
  "(plugin \<in> fst ` set (cfg_babelPlugins st) \<longrightarrow> addBabelPlugin plugin opts st = st)
   \<and> (plugin \<notin> fst ` set (cfg_babelPlugins st) \<longrightarrow>
        addBabelPlugin plugin opts st = st\<lparr>cfg_babelPlugins := cfg_babelPlugins st @ [(plugin, opts)]\<rparr>)
   \<and> fold (\<lambda>call. addBabelPlugin (fst call) (snd call)) calls st
        = st\<lparr>cfg_babelPlugins :=
               cfg_babelPlugins st @ first_registrations (map fst (cfg_babelPlugins st)) calls\<rparr>"
proof (intro conjI impI)
  assume "plugin \<in> fst ` set (cfg_babelPlugins st)"
  then have "find (\<lambda>item. fst item = plugin) (cfg_babelPlugins st) \<noteq> None"
    by (simp add: find_first_None_iff)
  then show "addBabelPlugin plugin opts st = st" by (simp add: addBabelPlugin_def)
next
  assume "plugin \<notin> fst ` set (cfg_babelPlugins st)"
  then have "find (\<lambda>item. fst item = plugin) (cfg_babelPlugins st) = None"
    by (simp add: find_first_None_iff)
  then show "addBabelPlugin plugin opts st = st\<lparr>cfg_babelPlugins := cfg_babelPlugins st @ [(plugin, opts)]\<rparr>"
    by (simp add: addBabelPlugin_def)
next
  show "fold (\<lambda>call. addBabelPlugin (fst call) (snd call)) calls st
        = st\<lparr>cfg_babelPlugins :=
               cfg_babelPlugins st @ first_registrations (map fst (cfg_babelPlugins st)) calls\<rparr>"
  proof (induction calls arbitrary: st)
    case Nil
    then show ?case by simp
  next
    case (Cons call calls)
    show ?case
    proof (cases "fst call \<in> fst ` set (cfg_babelPlugins st)")
      case True
      then have "find (\<lambda>item. fst item = fst call) (cfg_babelPlugins st) \<noteq> None"
        by (simp add: find_first_None_iff)
      then have "addBabelPlugin (fst call) (snd call) st = st" by (simp add: addBabelPlugin_def)
      with True Cons.IH[of st] show ?thesis by simp
    next
      case False
      then have "find (\<lambda>item. fst item = fst call) (cfg_babelPlugins st) = None"
        by (simp add: find_first_None_iff)
      then have step: "addBabelPlugin (fst call) (snd call) st
                         = st\<lparr>cfg_babelPlugins := cfg_babelPlugins st @ [call]\<rparr>"
        by (simp add: addBabelPlugin_def)
      from False Cons.IH[of "st\<lparr>cfg_babelPlugins := cfg_babelPlugins st @ [call]\<rparr>"] step
      show ?thesis by simp
    qed
  qed
qed

theorem plugins_keep_first_registration_witness:
  "PluginName ''a'' \<notin> fst ` set (cfg_babelPlugins idle)
   \<and> cfg_babelPlugins (addBabelPlugin (PluginName ''a'') (JNum 1) idle) = [(PluginName ''a'', JNum 1)]
   \<and> PluginName ''a'' \<in> fst ` set (cfg_babelPlugins (addBabelPlugin (PluginName ''a'') (JNum 1) idle))
   \<and> addBabelPlugin (PluginName ''a'') (JNum 3) (addBabelPlugin (PluginName ''a'') (JNum 1) idle)
       = addBabelPlugin (PluginName ''a'') (JNum 1) idle
   \<and> cfg_babelPlugins (fold (\<lambda>call. addBabelPlugin (fst call) (snd call))
         [(PluginName ''a'', JNum 1), (PluginRef 7, JNum 2), (PluginName ''a'', JNum 3), (PluginRef 7, JNull),
          (PluginRef 8, JNum 4)] idle)
       = [(PluginName ''a'', JNum 1), (PluginRef 7, JNum 2), (PluginRef 8, JNum 4)]"
proof -
  have e: "cfg_babelPlugins idle = []" by (simp add: idle_state)
  have new: "PluginName ''a'' \<notin> fst ` set (cfg_babelPlugins idle)" by (simp add: e)
  from plugins_keep_first_registration[of "PluginName ''a''" idle "JNum 1"] new
  have a1: "addBabelPlugin (PluginName ''a'') (JNum 1) idle
              = idle\<lparr>cfg_babelPlugins := cfg_babelPlugins idle @ [(PluginName ''a'', JNum 1)]\<rparr>"
    by blast
  then have l1: "cfg_babelPlugins (addBabelPlugin (PluginName ''a'') (JNum 1) idle) = [(PluginName ''a'', JNum 1)]"
    by (simp add: e)
  then have old: "PluginName ''a'' \<in> fst ` set (cfg_babelPlugins (addBabelPlugin (PluginName ''a'') (JNum 1) idle))"
    by simp
  from plugins_keep_first_registration[of "PluginName ''a''" "addBabelPlugin (PluginName ''a'') (JNum 1) idle" "JNum 3"] old
  have a2: "addBabelPlugin (PluginName ''a'') (JNum 3) (addBabelPlugin (PluginName ''a'') (JNum 1) idle)
       = addBabelPlugin (PluginName ''a'') (JNum 1) idle"
    by blast
  from plugins_keep_first_registration[of "PluginName ''a''" idle JNull
      "[(PluginName ''a'', JNum 1), (PluginRef 7, JNum 2), (PluginName ''a'', JNum 3), (PluginRef 7, JNull),
          (PluginRef 8, JNum 4)]", THEN conjunct2, THEN conjunct2]
  have a3: "cfg_babelPlugins (fold (\<lambda>call. addBabelPlugin (fst call) (snd call))
         [(PluginName ''a'', JNum 1), (PluginRef 7, JNum 2), (PluginName ''a'', JNum 3), (PluginRef 7, JNull),
          (PluginRef 8, JNum 4)] idle)
       = [(PluginName ''a'', JNum 1), (PluginRef 7, JNum 2), (PluginRef 8, JNum 4)]"
    by (simp add: e)
  from new l1 old a2 a3 show ?thesis by blast
qed

section \<open>A document overrides the libraries it names\<close>



end
